theory Spec2Isabelle
  imports Main "HOL-Library.Multiset"
begin

section \<open>Payloads and the Python primitives the program relies on\<close>

text \<open>
  A decoded JSON payload, as \<^verbatim>\<open>resp.json()\<close> hands it to the program. \<open>JNull\<close> is
  Python's \<^verbatim>\<open>None\<close>; an object is kept as its list of entries, looked up by key.
  Numbers are the integers the API uses for identifiers; JSON floats are not part of
  the model. Strings are lists of 8-bit characters.
\<close>

datatype json =
    JNull
  | JBool bool
  | JInt int
  | JStr string
  | JList "json list"
  | JObj "(string \<times> json) list"

text \<open>The exceptions that can travel through the data layer.\<close>

datatype exc =
    HTTPError
  | ConnectionError
  | Timeout
  | JSONDecodeError
  | ValueError
  | OverflowError
  | TypeError
  | AttributeError
  | KeyError
  | UnboundLocalError

definition bindE :: "exc + 'a \<Rightarrow> ('a \<Rightarrow> exc + 'b) \<Rightarrow> exc + 'b" where
  "bindE x f = (case x of Inl e \<Rightarrow> Inl e | Inr v \<Rightarrow> f v)"

text \<open>Python truth value of a payload: what \<^verbatim>\<open>if not js\<close> and \<^verbatim>\<open>x or y\<close> test.\<close>

fun truthy :: "json \<Rightarrow> bool" where
  "truthy JNull = False"
| "truthy (JBool b) = b"
| "truthy (JInt n) = (n \<noteq> 0)"
| "truthy (JStr s) = (s \<noteq> [])"
| "truthy (JList xs) = (xs \<noteq> [])"
| "truthy (JObj kvs) = (kvs \<noteq> [])"

definition py_or :: "json \<Rightarrow> json \<Rightarrow> json" where
  "py_or x y = (if truthy x then x else y)"

text \<open>\<^verbatim>\<open>obj.get(key, default)\<close>: only a dict has the method.\<close>

definition py_get :: "json \<Rightarrow> string \<Rightarrow> json \<Rightarrow> exc + json" where
  "py_get obj k d =
     (case obj of
        JObj kvs \<Rightarrow> Inr (case map_of kvs k of None \<Rightarrow> d | Some v \<Rightarrow> v)
      | _ \<Rightarrow> Inl AttributeError)"

text \<open>\<^verbatim>\<open>obj[key]\<close> with a string key, as the link comprehension uses it.\<close>

definition py_item :: "json \<Rightarrow> string \<Rightarrow> exc + json" where
  "py_item obj k =
     (case obj of
        JObj kvs \<Rightarrow> (case map_of kvs k of None \<Rightarrow> Inl KeyError | Some v \<Rightarrow> Inr v)
      | _ \<Rightarrow> Inl TypeError)"

text \<open>
  Iteration (\<^verbatim>\<open>for a in x\<close>, \<^verbatim>\<open>list.extend(x)\<close>): a list yields its items, a dict its
  keys, a string its characters; nothing else is iterable.
\<close>

definition py_iter :: "json \<Rightarrow> exc + json list" where
  "py_iter x =
     (case x of
        JList xs \<Rightarrow> Inr xs
      | JObj kvs \<Rightarrow> Inr (map JStr (remdups (map fst kvs)))
      | JStr s \<Rightarrow> Inr (map (\<lambda>c. JStr [c]) s)
      | _ \<Rightarrow> Inl TypeError)"

subsection \<open>Strings\<close>

text \<open>
  Case conversion is modelled on the ASCII letters; every other character is left as
  it is.
\<close>

definition ascii_upper :: string where
  "ascii_upper = ''ABCDEFGHIJKLMNOPQRSTUVWXYZ''"

definition ascii_lower :: string where
  "ascii_lower = ''abcdefghijklmnopqrstuvwxyz''"

definition lower_char :: "char \<Rightarrow> char" where
  "lower_char c = (case map_of (zip ascii_upper ascii_lower) c of Some d \<Rightarrow> d | None \<Rightarrow> c)"

definition upper_char :: "char \<Rightarrow> char" where
  "upper_char c = (case map_of (zip ascii_lower ascii_upper) c of Some d \<Rightarrow> d | None \<Rightarrow> c)"

definition str_lower :: "string \<Rightarrow> string" where
  "str_lower s = map lower_char s"

definition str_upper :: "string \<Rightarrow> string" where
  "str_upper s = map upper_char s"

definition startswith :: "string \<Rightarrow> string \<Rightarrow> bool" where
  "startswith s p = (take (length p) s = p)"

text \<open>\<^verbatim>\<open>x.lower()\<close> and \<^verbatim>\<open>x.upper()\<close> exist on strings only.\<close>

definition py_lower :: "json \<Rightarrow> exc + string" where
  "py_lower x = (case x of JStr s \<Rightarrow> Inr (str_lower s) | _ \<Rightarrow> Inl AttributeError)"

definition py_upper :: "json \<Rightarrow> exc + string" where
  "py_upper x = (case x of JStr s \<Rightarrow> Inr (str_upper s) | _ \<Rightarrow> Inl AttributeError)"

subsection \<open>\<^verbatim>\<open>int(...)\<close>\<close>

text \<open>
  \<^verbatim>\<open>int(s)\<close> on a string: surrounding whitespace is dropped, then an optional sign and
  decimal digits, where single underscores may separate digits. Anything else is a
  \<^verbatim>\<open>ValueError\<close> (\<open>None\<close> here), and so is a literal of more than \<open>max_str_digits\<close>
  digits, the interpreter's default limit.
\<close>

definition whitespace :: "char list" where
  "whitespace =
     [CHR 0x09, CHR 0x0A, CHR 0x0B, CHR 0x0C, CHR 0x0D, CHR 0x1C, CHR 0x1D, CHR 0x1E,
      CHR 0x1F, CHR 0x20, CHR 0x85, CHR 0xA0]"

definition strip :: "string \<Rightarrow> string" where
  "strip s =
     rev (dropWhile (\<lambda>c. c \<in> set whitespace) (rev (dropWhile (\<lambda>c. c \<in> set whitespace) s)))"

definition digit_of :: "char \<Rightarrow> nat option" where
  "digit_of c = map_of (zip ''0123456789'' [0, 1, 2, 3, 4, 5, 6, 7, 8, 9]) c"

fun more_digits :: "nat \<Rightarrow> string \<Rightarrow> nat option" where
  "more_digits acc [] = Some acc"
| "more_digits acc (c # cs) =
     (if c = CHR ''_'' then
        (case cs of
           [] \<Rightarrow> None
         | d # ds \<Rightarrow>
             (case digit_of d of None \<Rightarrow> None | Some v \<Rightarrow> more_digits (10 * acc + v) ds))
      else
        (case digit_of c of None \<Rightarrow> None | Some v \<Rightarrow> more_digits (10 * acc + v) cs))"

definition max_str_digits :: nat where
  "max_str_digits = 4300"

definition unsigned :: "string \<Rightarrow> nat option" where
  "unsigned s =
     (if length (filter (\<lambda>c. c \<noteq> CHR ''_'') s) > max_str_digits then None
      else
        (case s of
           [] \<Rightarrow> None
         | d # ds \<Rightarrow> (case digit_of d of None \<Rightarrow> None | Some v \<Rightarrow> more_digits v ds)))"

definition py_int :: "string \<Rightarrow> int option" where
  "py_int s =
     (case strip s of
        [] \<Rightarrow> None
      | c # cs \<Rightarrow>
          if c = CHR ''-'' then map_option (\<lambda>n. - int n) (unsigned cs)
          else if c = CHR ''+'' then map_option int (unsigned cs)
          else map_option int (unsigned (c # cs)))"

text \<open>\<^verbatim>\<open>int(x)\<close> on a payload value.\<close>

definition py_int_of :: "json \<Rightarrow> exc + int" where
  "py_int_of x =
     (case x of
        JInt n \<Rightarrow> Inr n
      | JBool b \<Rightarrow> Inr (if b then 1 else 0)
      | JStr s \<Rightarrow> (case py_int s of None \<Rightarrow> Inl ValueError | Some n \<Rightarrow> Inr n)
      | _ \<Rightarrow> Inl TypeError)"

section \<open>The remote API, the session and the observable effects\<close>

text \<open>
  The three endpoints the program reads. \<open>GetProposicoes ano pagina\<close> is
  \<^verbatim>\<open>BASE/proposicoes\<close> with \<^verbatim>\<open>siglaTipo=PL\<close>, the first and last day of \<open>ano\<close>,
  \<^verbatim>\<open>itens=100\<close> and \<^verbatim>\<open>pagina\<close>; \<open>GetAutores id\<close> is \<^verbatim>\<open>BASE/proposicoes/{id}/autores\<close>;
  \<open>GetDeputado id\<close> is \<^verbatim>\<open>BASE/deputados/{id}\<close>.
\<close>

datatype request =
    GetProposicoes int int
  | GetAutores int
  | GetDeputado int

text \<open>
  A response carries its status, its headers (a case-insensitive dict, kept under
  lower-cased names) and its body, \<open>None\<close> when the body is not JSON.
\<close>

record response =
  status_code :: int
  headers :: "string \<rightharpoonup> string"
  json_body :: "json option"

text \<open>
  \<^verbatim>\<open>SESSION.get\<close> either returns the response left after the pool's own retries or
  raises.
\<close>

datatype outcome = Responds response | Raises exc

datatype warning =
    WarnStatus int request
  | WarnFalha request exc

datatype event =
    Request request
  | Sleep int
  | Warning warning

text \<open>
  The state threaded through the program. \<open>net\<close> is the network and the server: what
  \<^verbatim>\<open>SESSION.get\<close> answers to a request, given everything observable that happened before
  it. \<open>trace\<close> records, in order, the requests issued, the sleeps (in milliseconds) and
  the warnings shown. \<open>chamadas\<close> lists the bill identifiers handed to the author
  resolver. The two caches are the memo tables of \<^verbatim>\<open>st.cache_data\<close> for the author and
  party resolvers; an entry stays for the whole run (the one-hour expiry needs
  wall-clock time and is not represented).
\<close>

record world =
  net :: "event list \<Rightarrow> request \<Rightarrow> outcome"
  trace :: "event list"
  chamadas :: "int list"
  cache_autores :: "int \<rightharpoonup> json"
  cache_partido :: "int \<rightharpoonup> string"

definition emit :: "world \<Rightarrow> event \<Rightarrow> world" where
  "emit w e = w\<lparr>trace := trace w @ [e]\<rparr>"



definition session_get :: "world \<Rightarrow> request \<Rightarrow> outcome \<times> world" where
  "session_get w url = (net w (trace w) url, emit w (Request url))"

text \<open>
  \<^verbatim>\<open>time.sleep\<close>, in milliseconds: a duration that does not fit the interpreter's clock
  type is an \<^verbatim>\<open>OverflowError\<close>, a negative one a \<^verbatim>\<open>ValueError\<close>.
\<close>

definition sleep_max :: int where
  "sleep_max = 9223372036"

definition time_sleep :: "world \<Rightarrow> int \<Rightarrow> exc + world" where
  "time_sleep w ms =
     (if ms > 1000 * sleep_max \<or> ms < - (1000 * sleep_max) then Inl OverflowError
      else if ms < 0 then Inl ValueError
      else Inr (emit w (Sleep ms)))"

definition headers_get :: "(string \<rightharpoonup> string) \<Rightarrow> string \<Rightarrow> string \<Rightarrow> string" where
  "headers_get hs k d = (case hs (str_lower k) of None \<Rightarrow> d | Some v \<Rightarrow> v)"

definition raise_for_status :: "response \<Rightarrow> exc option" where
  "raise_for_status r =
     (if 400 \<le> status_code r \<and> status_code r < 600 then Some HTTPError else None)"

section \<open>\<^verbatim>\<open>safe_get\<close>\<close>

text \<open>
  The two handlers of \<^verbatim>\<open>safe_get\<close>. \<open>resp\<close> is the local variable of that name:
  \<open>None\<close> while it has not been assigned. The first handler reads it.
\<close>

definition on_exception :: "world \<Rightarrow> request \<Rightarrow> response option \<Rightarrow> exc \<Rightarrow> (exc + json) \<times> world" where
  "on_exception w url resp e =
     (if e = HTTPError then
        (case resp of
           None \<Rightarrow> (Inl UnboundLocalError, w)
         | Some r \<Rightarrow> (Inr JNull, emit w (Warning (WarnStatus (status_code r) url))))
      else (Inr JNull, emit w (Warning (WarnFalha url e))))"

text \<open>\<^verbatim>\<open>resp.raise_for_status(); return resp.json()\<close>\<close>

definition conclude :: "world \<Rightarrow> request \<Rightarrow> response \<Rightarrow> (exc + json) \<times> world" where
  "conclude w url r =
     (case raise_for_status r of
        Some e \<Rightarrow> on_exception w url (Some r) e
      | None \<Rightarrow>
          (case json_body r of
             None \<Rightarrow> on_exception w url (Some r) JSONDecodeError
           | Some js \<Rightarrow> (Inr js, w)))"

definition retry_after :: "response \<Rightarrow> string" where
  "retry_after r = headers_get (headers r) ''Retry-After'' ''2''"

definition safe_get :: "world \<Rightarrow> request \<Rightarrow> (exc + json) \<times> world" where
  "safe_get w url =
     (case session_get w url of
        (Raises e, w1) \<Rightarrow> on_exception w1 url None e
      | (Responds r, w1) \<Rightarrow>
          if status_code r = 429 then
            (case py_int (retry_after r) of
               None \<Rightarrow> on_exception w1 url (Some r) ValueError
             | Some wait \<Rightarrow>
                 (case time_sleep w1 (1000 * wait) of
                    Inl e \<Rightarrow> on_exception w1 url (Some r) e
                  | Inr w2 \<Rightarrow>
                      (case session_get w2 url of
                         (Raises e, w3) \<Rightarrow> on_exception w3 url (Some r) e
                       | (Responds r2, w3) \<Rightarrow> conclude w3 url r2)))
          else conclude w1 url r)"

section \<open>\<^verbatim>\<open>buscar_pls_periodo\<close>\<close>

text \<open>
  The keys of \<^verbatim>\<open>{l["rel"]: l["href"] for l in ...}\<close>: each link must be a dict with
  both entries, and its \<^verbatim>\<open>rel\<close> must be hashable.
\<close>

fun hashable :: "json \<Rightarrow> bool" where
  "hashable (JList xs) = False"
| "hashable (JObj kvs) = False"
| "hashable v = True"

fun link_keys :: "json list \<Rightarrow> exc + json list" where
  "link_keys [] = Inr []"
| "link_keys (l # ls) =
     bindE (py_item l ''rel'') (\<lambda>rel.
     bindE (py_item l ''href'') (\<lambda>href.
       if hashable rel then bindE (link_keys ls) (\<lambda>ks. Inr (rel # ks))
       else Inl TypeError))"

text \<open>
  The inner \<^verbatim>\<open>while True\<close> of one year. The loop runs for as long as the server keeps
  answering with a next link and records, so the model carries fuel: \<open>None\<close> is a run
  that has not left the loop after \<open>fuel\<close> page fetches.
\<close>

fun paginas ::
  "nat \<Rightarrow> world \<Rightarrow> int \<Rightarrow> int \<Rightarrow> json list \<Rightarrow> ((exc + json list) \<times> world) option"
where
  "paginas 0 w ano pagina todos = None"
| "paginas (Suc fuel) w ano pagina todos =
     (case safe_get w (GetProposicoes ano pagina) of
        (Inl e, w1) \<Rightarrow> Some (Inl e, w1)
      | (Inr js, w1) \<Rightarrow>
          if \<not> truthy js then Some (Inr todos, w1)
          else
            (case py_get js ''dados'' (JList []) of
               Inl e \<Rightarrow> Some (Inl e, w1)
             | Inr dados \<Rightarrow>
                 (case py_iter dados of
                    Inl e \<Rightarrow> Some (Inl e, w1)
                  | Inr items \<Rightarrow>
                      (case bindE (py_get js ''links'' (JList [])) (\<lambda>ls. bindE (py_iter ls) link_keys) of
                         Inl e \<Rightarrow> Some (Inl e, w1)
                       | Inr links \<Rightarrow>
                           if JStr ''next'' \<in> set links \<and> length items > 0 then
                             (case time_sleep w1 150 of
                                Inl e \<Rightarrow> Some (Inl e, w1)
                              | Inr w2 \<Rightarrow> paginas fuel w2 ano (pagina + 1) (todos @ items))
                           else Some (Inr (todos @ items), w1)))))"

text \<open>The outer \<^verbatim>\<open>for ano in range(ano_ini, ano_fim + 1)\<close>.\<close>

fun anos_loop ::
  "nat \<Rightarrow> world \<Rightarrow> int list \<Rightarrow> json list \<Rightarrow> ((exc + json list) \<times> world) option"
where
  "anos_loop fuel w [] todos = Some (Inr todos, w)"
| "anos_loop fuel w (ano # anos) todos =
     (case paginas fuel w ano 1 todos of
        None \<Rightarrow> None
      | Some (Inl e, w1) \<Rightarrow> Some (Inl e, w1)
      | Some (Inr todos1, w1) \<Rightarrow> anos_loop fuel w1 anos todos1)"

subsection \<open>The data frame and its derived columns\<close>

text \<open>
  A frame cell. \<open>NaN\<close> and \<open>NaT\<close> are the null values of pandas (\<^verbatim>\<open>pd.isna\<close>);
  \<open>Texto\<close> is a Python string, \<open>Momento\<close> a UTC timestamp.
\<close>

record timestamp =
  ts_year :: int
  ts_month :: nat
  ts_day :: nat
  ts_nanos :: nat

datatype cell = NaN | NaT | Texto string | Inteiro int | Momento timestamp


text \<open>
  The frame \<^verbatim>\<open>pd.DataFrame(todos)\<close> as this program uses it: the collected records, and
  the three columns the function writes, each absent (\<open>None\<close>) or holding one cell per
  record. How pandas lays out a record that is not a JSON object is not modelled; such
  a record has no named field.
\<close>

record dataframe =
  registros :: "json list"
  dataApresentacao :: "cell list option"
  ano_mes :: "cell list option"
  ano :: "cell list option"

definition campo :: "json \<Rightarrow> string \<Rightarrow> json option" where
  "campo r k = (case r of JObj kvs \<Rightarrow> map_of kvs k | _ \<Rightarrow> None)"

definition has_column :: "json list \<Rightarrow> string \<Rightarrow> bool" where
  "has_column rows k = list_ex (\<lambda>r. campo r k \<noteq> None) rows"

text \<open>The column \<^verbatim>\<open>df[k]\<close>: one cell per record, \<open>None\<close> where the record has no such field.\<close>

definition coluna :: "json list \<Rightarrow> string \<Rightarrow> json option list" where
  "coluna rows k = map (\<lambda>r. campo r k) rows"

text \<open>
  \<^verbatim>\<open>pd.to_datetime(..., errors="coerce", utc=True)\<close> on one cell. \<open>parse\<close> is the
  library's reading of a value that is present, \<open>None\<close> where it cannot be read as a
  date; a missing field and a null are never a date. The library reads a value in the
  light of the column it stands in (it may infer the format from the other cells), so
  the frame hands the whole column to its parser.
\<close>

definition to_datetime :: "(json \<Rightarrow> timestamp option) \<Rightarrow> json option \<Rightarrow> cell" where
  "to_datetime parse c =
     (case c of
        None \<Rightarrow> NaT
      | Some JNull \<Rightarrow> NaT
      | Some v \<Rightarrow> (case parse v of None \<Rightarrow> NaT | Some ts \<Rightarrow> Momento ts))"

definition digit_char :: "nat \<Rightarrow> char" where
  "digit_char n = ''0123456789'' ! (n mod 10)"

definition period_text :: "timestamp \<Rightarrow> string" where
  "period_text ts =
     (let y = nat (ts_year ts); m = ts_month ts in
      [digit_char (y div 1000), digit_char (y div 100), digit_char (y div 10), digit_char y,
       CHR ''-'', digit_char (m div 10), digit_char m])"

text \<open>\<^verbatim>\<open>.dt.to_period("M").astype(str)\<close> on one cell: every cell becomes a string.\<close>

definition to_period_str :: "cell \<Rightarrow> cell" where
  "to_period_str c = (case c of Momento ts \<Rightarrow> Texto (period_text ts) | _ \<Rightarrow> Texto ''NaT'')"

text \<open>\<^verbatim>\<open>.dt.year\<close> on one cell.\<close>

definition dt_year :: "cell \<Rightarrow> cell" where
  "dt_year c = (case c of Momento ts \<Rightarrow> Inteiro (ts_year ts) | _ \<Rightarrow> NaN)"

definition normaliza_datas ::
  "(json option list \<Rightarrow> json \<Rightarrow> timestamp option) \<Rightarrow> json list \<Rightarrow> dataframe"
where
  "normaliza_datas parse todos =
     (if has_column todos ''dataApresentacao'' then
        (let col = coluna todos ''dataApresentacao'';
             datas = map (to_datetime (parse col)) col in
         \<lparr>registros = todos, dataApresentacao = Some datas,
          ano_mes = Some (map to_period_str datas), ano = Some (map dt_year datas)\<rparr>)
      else \<lparr>registros = todos, dataApresentacao = None, ano_mes = None, ano = None\<rparr>)"

definition buscar_pls_periodo ::
  "(json option list \<Rightarrow> json \<Rightarrow> timestamp option) \<Rightarrow> nat \<Rightarrow> world \<Rightarrow> int \<Rightarrow> int \<Rightarrow>
     ((exc + dataframe) \<times> world) option"
where
  "buscar_pls_periodo parse fuel w ano_ini ano_fim =
     (case anos_loop fuel w [ano_ini..ano_fim] [] of
        None \<Rightarrow> None
      | Some (Inl e, w1) \<Rightarrow> Some (Inl e, w1)
      | Some (Inr todos, w1) \<Rightarrow> Some (Inr (normaliza_datas parse todos), w1))"

section \<open>\<^verbatim>\<open>autores_por_proposicao\<close> and \<^verbatim>\<open>partido_do_deputado\<close>\<close>

definition autores_fetch :: "world \<Rightarrow> int \<Rightarrow> (exc + json) \<times> world" where
  "autores_fetch w id_proposicao =
     (case safe_get w (GetAutores id_proposicao) of
        (Inl e, w1) \<Rightarrow> (Inl e, w1)
      | (Inr js, w1) \<Rightarrow>
          if \<not> truthy js then (Inr (JList []), w1)
          else (py_get js ''dados'' (JList []), w1))"

text \<open>
  The function behind its memo table: a stored answer is returned as it is, a computed
  one is stored, an exception stores nothing. (Streamlit shows again the warnings of the
  call that computed a stored answer; the trace does not record that replay.)
\<close>

definition autores_por_proposicao :: "world \<Rightarrow> int \<Rightarrow> (exc + json) \<times> world" where
  "autores_por_proposicao w id_proposicao =
     (let w0 = w\<lparr>chamadas := chamadas w @ [id_proposicao]\<rparr> in
      case cache_autores w0 id_proposicao of
        Some v \<Rightarrow> (Inr v, w0)
      | None \<Rightarrow>
          (case autores_fetch w0 id_proposicao of
             (Inl e, w1) \<Rightarrow> (Inl e, w1)
           | (Inr v, w1) \<Rightarrow>
               (Inr v, w1\<lparr>cache_autores := (cache_autores w1)(id_proposicao \<mapsto> v)\<rparr>)))"

text \<open>What \<^verbatim>\<open>partido_do_deputado\<close> reads out of the payload.\<close>

definition sigla_partido :: "json \<Rightarrow> exc + string" where
  "sigla_partido js =
     bindE (py_get js ''dados'' (JObj [])) (\<lambda>d.
     bindE (py_get (py_or d (JObj [])) ''ultimoStatus'' (JObj [])) (\<lambda>u.
     bindE (py_get (py_or u (JObj [])) ''siglaPartido'' JNull) (\<lambda>s.
       py_upper (py_or s (JStr [])))))"

definition partido_fetch :: "world \<Rightarrow> int \<Rightarrow> (exc + string) \<times> world" where
  "partido_fetch w id_deputado =
     (case safe_get w (GetDeputado id_deputado) of
        (Inl e, w1) \<Rightarrow> (Inl e, w1)
      | (Inr js, w1) \<Rightarrow>
          if \<not> truthy js then (Inr [], w1)
          else (sigla_partido js, w1))"

definition partido_do_deputado :: "world \<Rightarrow> int \<Rightarrow> (exc + string) \<times> world" where
  "partido_do_deputado w id_deputado =
     (case cache_partido w id_deputado of
        Some p \<Rightarrow> (Inr p, w)
      | None \<Rightarrow>
          (case partido_fetch w id_deputado of
             (Inl e, w1) \<Rightarrow> (Inl e, w1)
           | (Inr p, w1) \<Rightarrow>
               (Inr p, w1\<lparr>cache_partido := (cache_partido w1)(id_deputado \<mapsto> p)\<rparr>)))"

section \<open>\<^verbatim>\<open>contagem_por_partido\<close>\<close>

text \<open>\<^verbatim>\<open>(a.get("tipoAutor") or "").lower().startswith("parlamentar")\<close>\<close>

definition parlamentar :: "json \<Rightarrow> exc + bool" where
  "parlamentar a =
     bindE (py_get a ''tipoAutor'' JNull) (\<lambda>t.
     bindE (py_lower (py_or t (JStr []))) (\<lambda>s.
       Inr (startswith s ''parlamentar'')))"

text \<open>\<^verbatim>\<open>a.get("idDeputado") or (a.get("autor") or {}).get("id")\<close>\<close>

definition idep_of :: "json \<Rightarrow> exc + json" where
  "idep_of a =
     bindE (py_get a ''idDeputado'' JNull) (\<lambda>i.
       if truthy i then Inr i
       else bindE (py_get a ''autor'' JNull) (\<lambda>au. py_get (py_or au (JObj [])) ''id'' JNull))"

text \<open>The body of \<^verbatim>\<open>for a in autores\<close>, on the tally list \<open>partidos\<close>.\<close>

definition autor_step :: "world \<Rightarrow> json \<Rightarrow> string list \<Rightarrow> (exc + string list) \<times> world" where
  "autor_step w a partidos =
     (case parlamentar a of
        Inl e \<Rightarrow> (Inl e, w)
      | Inr False \<Rightarrow> (Inr partidos, w)
      | Inr True \<Rightarrow>
          (case idep_of a of
             Inl e \<Rightarrow> (Inl e, w)
           | Inr idep \<Rightarrow>
               if \<not> truthy idep then (Inr partidos, w)
               else
                 (case py_int_of idep of
                    Inl e \<Rightarrow> (Inl e, w)
                  | Inr n \<Rightarrow>
                      (case partido_do_deputado w n of
                         (Inl e, w1) \<Rightarrow> (Inl e, w1)
                       | (Inr p, w1) \<Rightarrow>
                           if p \<noteq> [] then (Inr (partidos @ [p]), w1)
                           else (Inr partidos, w1)))))"

fun autores_loop :: "world \<Rightarrow> json list \<Rightarrow> string list \<Rightarrow> (exc + string list) \<times> world" where
  "autores_loop w [] partidos = (Inr partidos, w)"
| "autores_loop w (a # as) partidos =
     (case autor_step w a partidos of
        (Inl e, w1) \<Rightarrow> (Inl e, w1)
      | (Inr partidos1, w1) \<Rightarrow> autores_loop w1 as partidos1)"

text \<open>The body of \<^verbatim>\<open>for i, pid in enumerate(ids, start=1)\<close>.\<close>

fun ids_loop :: "world \<Rightarrow> nat \<Rightarrow> int list \<Rightarrow> string list \<Rightarrow> (exc + string list) \<times> world" where
  "ids_loop w i [] partidos = (Inr partidos, w)"
| "ids_loop w i (pid # ids) partidos =
     (case (if i mod 25 = 0 then time_sleep w 400 else Inr w) of
        Inl e \<Rightarrow> (Inl e, w)
      | Inr w0 \<Rightarrow>
          (case autores_por_proposicao w0 pid of
             (Inl e, w1) \<Rightarrow> (Inl e, w1)
           | (Inr autores, w1) \<Rightarrow>
               (case py_iter autores of
                  Inl e \<Rightarrow> (Inl e, w1)
                | Inr as \<Rightarrow>
                    (case autores_loop w1 as partidos of
                       (Inl e, w2) \<Rightarrow> (Inl e, w2)
                     | (Inr partidos1, w2) \<Rightarrow> ids_loop w2 (Suc i) ids partidos1))))"

text \<open>
  \<^verbatim>\<open>df_pl.get("id", ...).dropna().astype(int).tolist()\<close>: the cells of the \<^verbatim>\<open>id\<close> column
  that are not null, each converted as \<^verbatim>\<open>int\<close> converts it.
\<close>

definition dropna :: "json option list \<Rightarrow> json list" where
  "dropna cells = concat (map (\<lambda>c. case c of None \<Rightarrow> [] | Some JNull \<Rightarrow> [] | Some v \<Rightarrow> [v]) cells)"

fun astype_int :: "json list \<Rightarrow> exc + int list" where
  "astype_int [] = Inr []"
| "astype_int (v # vs) =
     bindE (py_int_of v) (\<lambda>n. bindE (astype_int vs) (\<lambda>ns. Inr (n # ns)))"

definition ids_of :: "dataframe \<Rightarrow> exc + int list" where
  "ids_of df_pl = astype_int (dropna (coluna (registros df_pl) ''id''))"

text \<open>
  \<^verbatim>\<open>value_counts()\<close> followed by the descending sort: one row per distinct party with
  its number of occurrences. Rows with equal counts are kept in order of first
  appearance; pandas leaves their order open.
\<close>

definition value_counts :: "string list \<Rightarrow> (string \<times> nat) list" where
  "value_counts ps =
     sort_key (\<lambda>row. - int (snd row)) (map (\<lambda>p. (p, count_list ps p)) (rev (remdups (rev ps))))"

definition contagem_por_partido ::
  "world \<Rightarrow> dataframe \<Rightarrow> bool \<Rightarrow> (exc + (string \<times> nat) list) \<times> world"
where
  "contagem_por_partido w df_pl usar_todos =
     (case ids_of df_pl of
        Inl e \<Rightarrow> (Inl e, w)
      | Inr todos_ids \<Rightarrow>
          (let ids = (if \<not> usar_todos then take 800 todos_ids else todos_ids) in
           case ids_loop w 1 ids [] of
             (Inl e, w1) \<Rightarrow> (Inl e, w1)
           | (Inr partidos, w1) \<Rightarrow> (Inr (value_counts partidos), w1)))"

subsection \<open>What the tally is meant to count\<close>

text \<open>
  The party an author reference stands for, in the spec's words: the reference is
  parliamentary, a legislator identifier is found in one of its two places, and the
  party resolver returns a non-empty code for it. \<open>None\<close> for every other reference.
\<close>

definition party_of_reference :: "world \<Rightarrow> json \<Rightarrow> string option" where
  "party_of_reference w a =
     (case (parlamentar a, idep_of a) of
        (Inr True, Inr idep) \<Rightarrow>
          if truthy idep then
            (case py_int_of idep of
               Inr n \<Rightarrow>
                 (case fst (partido_do_deputado w n) of
                    Inr p \<Rightarrow> if p \<noteq> [] then Some p else None
                  | Inl e \<Rightarrow> None)
             | Inl e \<Rightarrow> None)
          else None
      | _ \<Rightarrow> None)"

definition contribution :: "world \<Rightarrow> json \<Rightarrow> string list" where
  "contribution w a = (case party_of_reference w a of None \<Rightarrow> [] | Some p \<Rightarrow> [p])"

text \<open>
  The number of author references that resolve to a party: among the authors of one
  bill, and over a list of bills. Each reference is judged in the state of the run at
  its turn, and a bill counts once for each of its authors.
\<close>

fun resolved_in :: "world \<Rightarrow> json list \<Rightarrow> nat" where
  "resolved_in w [] = 0"
| "resolved_in w (a # as) =
     (case party_of_reference w a of None \<Rightarrow> 0 | Some p \<Rightarrow> 1) +
     resolved_in (snd (autor_step w a [])) as"

fun resolved_refs :: "world \<Rightarrow> nat \<Rightarrow> int list \<Rightarrow> nat" where
  "resolved_refs w i [] = 0"
| "resolved_refs w i (pid # ids) =
     (case (if i mod 25 = 0 then time_sleep w 400 else Inr w) of
        Inl e \<Rightarrow> 0
      | Inr w0 \<Rightarrow>
          (case autores_por_proposicao w0 pid of
             (Inr autores, w1) \<Rightarrow>
               (case py_iter autores of
                  Inr as \<Rightarrow>
                    resolved_in w1 as + resolved_refs (snd (autores_loop w1 as [])) (Suc i) ids
                | Inl e \<Rightarrow> 0)
           | (Inl e, w1) \<Rightarrow> 0))"

section \<open>Servers and inputs of the scenarios\<close>

text \<open>A session that has done nothing yet, against the given server.\<close>

definition fresh :: "(event list \<Rightarrow> request \<Rightarrow> outcome) \<Rightarrow> world" where
  "fresh server =
     \<lparr>net = server, trace = [], chamadas = [], cache_autores = Map.empty, cache_partido = Map.empty\<rparr>"

definition reply :: "int \<Rightarrow> (string \<times> string) list \<Rightarrow> json option \<Rightarrow> outcome" where
  "reply status hs b = Responds \<lparr>status_code = status, headers = map_of hs, json_body = b\<rparr>"

text \<open>
  A field counts as missing from an object when it is absent or holds a value Python
  takes for false (null above all): the cases \<^verbatim>\<open>x.get(k) or default\<close> sends to the
  default.
\<close>

definition missing :: "(string \<times> json) list \<Rightarrow> string \<Rightarrow> bool" where
  "missing kvs k = (case map_of kvs k of None \<Rightarrow> True | Some v \<Rightarrow> \<not> truthy v)"





definition http_date_retry_after :: "event list \<Rightarrow> request \<Rightarrow> outcome" where
  "http_date_retry_after t url =
     reply 429 [(''retry-after'', ''Wed, 21 Oct 2015 07:28:00 GMT'')] None"


text \<open>The legislator endpoint answering with party \<^verbatim>\<open>pt\<close>; a server that is down.\<close>

definition deputado_pt :: "event list \<Rightarrow> request \<Rightarrow> outcome" where
  "deputado_pt t url =
     reply 200 [] (Some (JObj [(''dados'', JObj [(''id'', JInt 55),
        (''ultimoStatus'', JObj [(''siglaPartido'', JStr ''pt'')])])]))"


text \<open>A frame that holds just the given bill identifiers, and a thousand of them.\<close>

definition frame_of_ids :: "int list \<Rightarrow> dataframe" where
  "frame_of_ids ids =
     \<lparr>registros = map (\<lambda>n. JObj [(''id'', JInt n)]) ids,
      dataApresentacao = None, ano_mes = None, ano = None\<rparr>"




text \<open>
  The API of the end-to-end scenario: bill 101 has one parliamentary author, legislator
  55 of party \<^verbatim>\<open>pt\<close>; every other bill has one author that is not a legislator.
\<close>

definition camara :: "event list \<Rightarrow> request \<Rightarrow> outcome" where
  "camara t url =
     (case url of
        GetAutores pid \<Rightarrow>
          if pid = 101 then
            reply 200 [] (Some (JObj [(''dados'', JList
              [JObj [(''nome'', JStr ''Fulano''), (''tipoAutor'', JStr ''Parlamentar''),
                     (''idDeputado'', JInt 55)]])]))
          else
            reply 200 [] (Some (JObj [(''dados'', JList
              [JObj [(''nome'', JStr ''Poder Executivo''),
                     (''tipoAutor'', JStr ''Orgao do Poder Executivo'')]])]))
      | GetDeputado n \<Rightarrow> deputado_pt t url
      | GetProposicoes a p \<Rightarrow> reply 404 [] None)"

text \<open>
  Two parliamentary author references without a usable \<^verbatim>\<open>idDeputado\<close>: one whose
  nested identifier is 0 as well, one whose nested identifier is 55.
\<close>

definition autor_sem_id :: json where
  "autor_sem_id =
     JObj [(''tipoAutor'', JStr ''parlamentar''), (''idDeputado'', JInt 0),
           (''autor'', JObj [(''id'', JInt 0)])]"

definition autor_aninhado :: json where
  "autor_aninhado =
     JObj [(''tipoAutor'', JStr ''PARLAMENTAR''), (''idDeputado'', JNull),
           (''autor'', JObj [(''id'', JInt 55)])]"

text \<open>The two author references of the end-to-end scenario.\<close>

definition autor_101 :: "(string \<times> json) list" where
  "autor_101 = [(''nome'', JStr ''Fulano''), (''tipoAutor'', JStr ''Parlamentar''),
                (''idDeputado'', JInt 55)]"

definition autor_102 :: "(string \<times> json) list" where
  "autor_102 = [(''nome'', JStr ''Poder Executivo''),
                (''tipoAutor'', JStr ''Orgao do Poder Executivo'')]"

text \<open>
  An API on which every bill has the same two authors: legislator 55 of party \<^verbatim>\<open>pt\<close>
  and a committee.
\<close>

definition camara_dupla :: "event list \<Rightarrow> request \<Rightarrow> outcome" where
  "camara_dupla t url =
     (case url of
        GetAutores pid \<Rightarrow>
          reply 200 [] (Some (JObj [(''dados'', JList
            [JObj [(''tipoAutor'', JStr ''Parlamentar''), (''idDeputado'', JInt 55)],
             JObj [(''tipoAutor'', JStr ''Comissao'')]])]))
      | GetDeputado n \<Rightarrow> deputado_pt t url
      | GetProposicoes a p \<Rightarrow> reply 404 [] None)"

text \<open>
  Three collected bills: one with a date, one without the field, one whose date cannot
  be read; and a parser that reads the one date.
\<close>

definition parse_exemplo :: "json option list \<Rightarrow> json \<Rightarrow> timestamp option" where
  "parse_exemplo col v =
     (if v = JStr ''2023-05-10T12:06'' then
        Some \<lparr>ts_year = 2023, ts_month = 5, ts_day = 10, ts_nanos = 43560000000000\<rparr>
      else None)"


text \<open>
  What the collector reads from a page that is in order: its records and the keys of
  its links. A page is in order when it is a non-empty object whose \<^verbatim>\<open>dados\<close> can be
  iterated and whose links are objects with \<^verbatim>\<open>rel\<close> and \<^verbatim>\<open>href\<close>. A full page has a
  next link and at least one record; a last page has no next link.
\<close>

definition page_parts :: "json \<Rightarrow> (json list \<times> json list) option" where
  "page_parts js =
     (if \<not> truthy js then None
      else
        (case bindE (py_get js ''dados'' (JList [])) py_iter of
           Inl e \<Rightarrow> None
         | Inr items \<Rightarrow>
             (case bindE (py_get js ''links'' (JList [])) (\<lambda>ls. bindE (py_iter ls) link_keys) of
                Inl e \<Rightarrow> None
              | Inr keys \<Rightarrow> Some (items, keys))))"

definition records_of :: "json \<Rightarrow> json list" where
  "records_of js = (case page_parts js of None \<Rightarrow> [] | Some (items, keys) \<Rightarrow> items)"

definition has_next :: "json \<Rightarrow> bool" where
  "has_next js = (case page_parts js of None \<Rightarrow> False | Some (items, keys) \<Rightarrow> JStr ''next'' \<in> set keys)"

definition full_page :: "json \<Rightarrow> bool" where
  "full_page js = (page_parts js \<noteq> None \<and> has_next js \<and> records_of js \<noteq> [])"

definition last_page :: "json \<Rightarrow> bool" where
  "last_page js = (page_parts js \<noteq> None \<and> \<not> has_next js)"


text \<open>
  A listing with three pages of one bill each for 2023, the first two with a next link,
  and nothing but errors for any other year.
\<close>

definition link :: "string \<Rightarrow> json" where
  "link rel = JObj [(''rel'', JStr rel), (''href'', JStr ''https://dadosabertos.camara.leg.br/api/v2/proposicoes'')]"

definition pagina_exemplo :: "nat \<Rightarrow> json" where
  "pagina_exemplo k =
     JObj [(''dados'', JList [JObj [(''id'', JInt (int k + 1)), (''siglaTipo'', JStr ''PL'')]]),
           (''links'', JList (if k < 2 then [link ''self'', link ''next''] else [link ''self'']))]"

definition tres_paginas :: "event list \<Rightarrow> request \<Rightarrow> outcome" where
  "tres_paginas t url =
     (case url of
        GetProposicoes y p \<Rightarrow>
          if y = 2023 \<and> 1 \<le> p \<and> p \<le> 3 then reply 200 [] (Some (pagina_exemplo (nat (p - 1))))
          else reply 503 [] None
      | _ \<Rightarrow> reply 404 [] None)"

section \<open>Evaluation rules\<close>

lemmas py_int_eval = py_int_def strip_def whitespace_def unsigned_def digit_of_def max_str_digits_def

lemmas safe_get_eval = safe_get_def session_get_def emit_def on_exception_def conclude_def
  time_sleep_def sleep_max_def raise_for_status_def retry_after_def headers_get_def str_lower_def
  lower_char_def ascii_upper_def ascii_lower_def

lemmas json_eval = bindE_def py_get_def py_or_def py_lower_def py_upper_def py_iter_def py_int_of_def
  str_upper_def upper_char_def startswith_def missing_def

lemmas partido_eval = partido_do_deputado_def partido_fetch_def sigla_partido_def

lemmas contagem_eval = contagem_por_partido_def ids_of_def frame_of_ids_def coluna_def dropna_def campo_def
  autores_por_proposicao_def autores_fetch_def autor_step_def parlamentar_def idep_of_def
  partido_eval safe_get_eval json_eval fresh_def reply_def deputado_pt_def value_counts_def


lemmas page_eval = page_parts_def records_of_def has_next_def full_page_def last_page_def
  pagina_exemplo_def link_def bindE_def py_get_def py_iter_def py_item_def

section \<open>The wrapper \<^verbatim>\<open>safe_get\<close>\<close>


lemma safe_get_error_status:
  assumes "fst (session_get w url) = Responds r" and "status_code r \<noteq> 429"
    and "400 \<le> status_code r" and "status_code r < 600"
  shows "safe_get w url = (Inr JNull, w\<lparr>trace := trace w @ [Request url, Warning (WarnStatus (status_code r) url)]\<rparr>)"
  using assms
  by (auto simp: safe_get_def session_get_def emit_def on_exception_def conclude_def raise_for_status_def)

lemma safe_get_other_exception:
  assumes "net w (trace w) url = Raises e" and "e \<noteq> HTTPError"
  shows "safe_get w url = (Inr JNull, w\<lparr>trace := trace w @ [Request url, Warning (WarnFalha url e)]\<rparr>)"
  using assms
  by (auto simp: safe_get_def session_get_def emit_def on_exception_def)








text \<open>
  Claim C10. There is a 429 response, with a \<^verbatim>\<open>Retry-After\<close> that is not a string of
  decimal digits (the HTTP date form), on which \<^verbatim>\<open>safe_get\<close> returns \<^verbatim>\<open>None\<close> with the
  generic failure warning, having slept not at all and sent no second request.
\<close>

theorem safe_get_http_date_no_retry:
  "\<exists>w url r v. net w (trace w) url = Responds r \<and> status_code r = 429 \<and>
      headers r ''retry-after'' = Some v \<and> \<not> list_all (\<lambda>c. c \<in> set ''0123456789'') v \<and>
      safe_get w url = (Inr JNull, w\<lparr>trace := trace w @ [Request url, Warning (WarnFalha url ValueError)]\<rparr>)"
proof -
  let ?r = "\<lparr>status_code = 429, headers = map_of [(''retry-after'', ''Wed, 21 Oct 2015 07:28:00 GMT'')], json_body = None\<rparr>"
  have "net (fresh http_date_retry_after) (trace (fresh http_date_retry_after)) (GetDeputado 55) = Responds ?r \<and> status_code ?r = 429 \<and>
      headers ?r ''retry-after'' = Some ''Wed, 21 Oct 2015 07:28:00 GMT'' \<and> \<not> list_all (\<lambda>c. c \<in> set ''0123456789'') ''Wed, 21 Oct 2015 07:28:00 GMT'' \<and>
      safe_get (fresh http_date_retry_after) (GetDeputado 55) = (Inr JNull, (fresh http_date_retry_after)\<lparr>trace := trace (fresh http_date_retry_after) @ [Request (GetDeputado 55), Warning (WarnFalha (GetDeputado 55) ValueError)]\<rparr>)"
    by (simp add: fresh_def http_date_retry_after_def reply_def safe_get_eval py_int_eval)
  then show ?thesis by blast
qed




section \<open>The party resolver\<close>














section \<open>The aggregator\<close>

subsection \<open>Which bills are handed to the author resolver\<close>










lemma ids_of_frame: "ids_of (frame_of_ids ids) = Inr ids"
  by (induction ids)
    (auto simp: ids_of_def frame_of_ids_def coluna_def dropna_def campo_def bindE_def py_int_of_def)











subsection \<open>Where the legislator identifier comes from\<close>

text \<open>
  Claim C9. For a parliamentary author reference whose \<^verbatim>\<open>idDeputado\<close> is absent, null,
  zero or otherwise false, the identifier is the nested \<^verbatim>\<open>autor.id\<close>. When that is
  missing or false too (a literal 0 included), the step leaves the tally and the world
  as they were: no party lookup is made. Otherwise the party of that identifier is
  looked up.
\<close>

theorem autor_step_nested_id:
  assumes "parlamentar (JObj kvs) = Inr True" and "missing kvs ''idDeputado''"
  shows "(missing kvs ''autor'' \<longrightarrow>
            idep_of (JObj kvs) = Inr JNull \<and> autor_step w (JObj kvs) ps = (Inr ps, w)) \<and>
         (\<forall>au. map_of kvs ''autor'' = Some (JObj au) \<longrightarrow>
            idep_of (JObj kvs) = Inr (case map_of au ''id'' of None \<Rightarrow> JNull | Some v \<Rightarrow> v)) \<and>
         (\<forall>au. map_of kvs ''autor'' = Some (JObj au) \<and> missing au ''id'' \<longrightarrow>
            autor_step w (JObj kvs) ps = (Inr ps, w)) \<and>
         (\<forall>au v n. map_of kvs ''autor'' = Some (JObj au) \<and> map_of au ''id'' = Some v \<and>
            truthy v \<and> py_int_of v = Inr n \<longrightarrow>
            autor_step w (JObj kvs) ps =
              (case partido_do_deputado w n of
                 (Inl e, w1) \<Rightarrow> (Inl e, w1)
               | (Inr p, w1) \<Rightarrow> (Inr (if p \<noteq> [] then ps @ [p] else ps), w1)))"
proof -
  have c1: "missing kvs ''autor'' \<longrightarrow> idep_of (JObj kvs) = Inr JNull"
    using assms(2)
    by (auto simp: idep_of_def bindE_def py_get_def py_or_def missing_def split: option.splits)
  have c2: "\<forall>au. map_of kvs ''autor'' = Some (JObj au) \<longrightarrow>
            idep_of (JObj kvs) = Inr (case map_of au ''id'' of None \<Rightarrow> JNull | Some v \<Rightarrow> v)"
    using assms(2)
    by (auto simp: idep_of_def bindE_def py_get_def py_or_def missing_def split: option.splits)
  have c3: "\<forall>au. map_of kvs ''autor'' = Some (JObj au) \<and> missing au ''id'' \<longrightarrow>
            autor_step w (JObj kvs) ps = (Inr ps, w)"
    using assms(1) c2 by (auto simp: autor_step_def missing_def split: option.splits)
  have c4: "\<forall>au v n. map_of kvs ''autor'' = Some (JObj au) \<and> map_of au ''id'' = Some v \<and>
            truthy v \<and> py_int_of v = Inr n \<longrightarrow>
            autor_step w (JObj kvs) ps =
              (case partido_do_deputado w n of
                 (Inl e, w1) \<Rightarrow> (Inl e, w1)
               | (Inr p, w1) \<Rightarrow> (Inr (if p \<noteq> [] then ps @ [p] else ps), w1))"
    using assms(1) c2 by (auto simp: autor_step_def split: prod.splits sum.splits)
  have c1': "missing kvs ''autor'' \<longrightarrow> autor_step w (JObj kvs) ps = (Inr ps, w)"
    using assms(1) c1 by (auto simp: autor_step_def)
  show ?thesis using c1 c1' c2 c3 c4 by blast
qed

text \<open>Witness for C9: both identifiers 0; and a null \<^verbatim>\<open>idDeputado\<close> with nested identifier 55.\<close>

theorem autor_step_nested_id_witness:
  "parlamentar autor_sem_id = Inr True \<and>
   autor_step (fresh deputado_pt) autor_sem_id [''PSDB''] = (Inr [''PSDB''], fresh deputado_pt) \<and>
   parlamentar autor_aninhado = Inr True \<and>
   idep_of autor_aninhado = Inr (JInt 55) \<and>
   fst (autor_step (fresh deputado_pt) autor_aninhado [''PSDB'']) = Inr [''PSDB'', ''PT''] \<and>
   trace (snd (autor_step (fresh deputado_pt) autor_aninhado [''PSDB''])) = [Request (GetDeputado 55)]"
proof -
  let ?k0 = "[(''tipoAutor'', JStr ''parlamentar''), (''idDeputado'', JInt 0),
           (''autor'', JObj [(''id'', JInt 0)])]"
  let ?k1 = "[(''tipoAutor'', JStr ''PARLAMENTAR''), (''idDeputado'', JNull),
           (''autor'', JObj [(''id'', JInt 55)])]"
  have a1: "parlamentar (JObj ?k0) = Inr True"
    by (simp add: parlamentar_def json_eval str_lower_def lower_char_def ascii_upper_def ascii_lower_def)
  have a2: "missing ?k0 ''idDeputado''" by (simp add: missing_def)
  have b1: "parlamentar (JObj ?k1) = Inr True"
    by (simp add: parlamentar_def json_eval str_lower_def lower_char_def ascii_upper_def ascii_lower_def)
  have b2: "missing ?k1 ''idDeputado''" by (simp add: missing_def)
  have p: "partido_do_deputado (fresh deputado_pt) 55 =
      (Inr ''PT'', (fresh deputado_pt)\<lparr>trace := [Request (GetDeputado 55)],
          cache_partido := [55 \<mapsto> ''PT'']\<rparr>)"
    by (simp add: partido_eval fresh_def deputado_pt_def reply_def safe_get_eval json_eval)
  show ?thesis
    using autor_step_nested_id [OF a1 a2, of "fresh deputado_pt" "[''PSDB'']"]
      autor_step_nested_id [OF b1 b2, of "fresh deputado_pt" "[''PSDB'']"] a1 b1 p
    by (simp add: autor_sem_id_def autor_aninhado_def missing_def py_int_of_def)
qed

subsection \<open>The tally and the counts\<close>

lemma value_counts_set: "set (value_counts ps) = (\<lambda>p. (p, count_list ps p)) ` set ps"
  by (simp add: value_counts_def)

lemma value_counts_distinct: "distinct (map fst (value_counts ps))"
proof -
  have "mset (map fst (value_counts ps)) = mset (rev (remdups (rev ps)))"
    by (simp add: value_counts_def image_mset.compositionality comp_def)
  moreover have "distinct (rev (remdups (rev ps)))" by simp
  ultimately show ?thesis by (metis mset_eq_imp_distinct_iff)
qed

lemma value_counts_sum: "sum_list (map snd (value_counts ps)) = length ps"
proof -
  have "mset (map snd (value_counts ps)) = mset (map (count_list ps) (rev (remdups (rev ps))))"
    by (simp add: value_counts_def image_mset.compositionality comp_def)
  then have "sum_list (map snd (value_counts ps)) = sum_list (map (count_list ps) (rev (remdups (rev ps))))"
    by (metis sum_mset_sum_list)
  also have "\<dots> = sum (count_list ps) (set ps)"
    by (simp add: sum_list_distinct_conv_sum_set)
  also have "\<dots> = length ps"
    by (simp add: sum_count_set)
  finally show ?thesis .
qed

lemma descending_counts:
  "sorted (map (\<lambda>row. - int (snd row)) (rows :: (string \<times> nat) list)) \<Longrightarrow>
   sorted (rev (map snd rows))"
  by (induction rows) (auto simp: sorted_append)

lemma value_counts_sorted: "sorted (rev (map snd (value_counts ps)))"
  by (rule descending_counts) (simp add: value_counts_def)

lemma autor_step_contribution:
  "autor_step w a ps = (Inr ps', w1) \<Longrightarrow> ps' = ps @ contribution w a"
  by (auto simp: autor_step_def contribution_def party_of_reference_def
      split: sum.splits bool.splits if_splits prod.splits)

lemma autor_step_acc:
  "autor_step w a ps =
     (case autor_step w a [] of
        (Inl e, w1) \<Rightarrow> (Inl e, w1)
      | (Inr qs, w1) \<Rightarrow> (Inr (ps @ qs), w1))"
  by (auto simp: autor_step_def split: sum.splits bool.splits if_splits prod.splits)

lemma autores_loop_acc:
  "autores_loop w as ps =
     (case autores_loop w as [] of
        (Inl e, w1) \<Rightarrow> (Inl e, w1)
      | (Inr qs, w1) \<Rightarrow> (Inr (ps @ qs), w1))"
proof (induction as arbitrary: w ps)
  case Nil
  then show ?case by simp
next
  case (Cons a as)
  obtain r wa where s: "autor_step w a [] = (r, wa)" by (cases "autor_step w a []")
  show ?case
  proof (cases r)
    case (Inl e)
    then show ?thesis using s autor_step_acc [of w a ps] by simp
  next
    case (Inr c)
    have 1: "autor_step w a ps = (Inr (ps @ c), wa)"
      using s Inr autor_step_acc [of w a ps] by simp
    have 2: "autores_loop w (a # as) ps = autores_loop wa as (ps @ c)"
      using 1 by simp
    have 3: "autores_loop w (a # as) [] = autores_loop wa as c"
      using s Inr by simp
    show ?thesis
      unfolding 2 3 using Cons.IH [of wa "ps @ c"] Cons.IH [of wa c]
      by (auto split: prod.splits sum.splits)
  qed
qed

lemma autores_loop_count:
  "autores_loop w as [] = (Inr qs, w1) \<Longrightarrow> length qs = resolved_in w as"
proof (induction as arbitrary: w qs w1)
  case Nil
  then show ?case by simp
next
  case (Cons a as)
  obtain r wa where s: "autor_step w a [] = (r, wa)" by (cases "autor_step w a []")
  show ?case
  proof (cases r)
    case (Inl e)
    then show ?thesis using s Cons.prems by simp
  next
    case (Inr c)
    have c: "c = contribution w a"
      using s Inr autor_step_contribution [of w a "[]" c wa] by simp
    have l: "autores_loop wa as c = (Inr qs, w1)"
      using s Inr Cons.prems by simp
    obtain r2 w2 where t: "autores_loop wa as [] = (r2, w2)" by (cases "autores_loop wa as []")
    show ?thesis
    proof (cases r2)
      case (Inl e)
      then show ?thesis using l t autores_loop_acc [of wa as c] by simp
    next
      case r2: (Inr qs2)
      have "qs = c @ qs2" using l t r2 autores_loop_acc [of wa as c] by simp
      moreover have "length qs2 = resolved_in wa as"
        using Cons.IH [of wa qs2 w2] t r2 by simp
      moreover have "length c = (case party_of_reference w a of None \<Rightarrow> 0 | Some p \<Rightarrow> 1)"
        using c by (simp add: contribution_def split: option.splits)
      ultimately show ?thesis using s by simp
    qed
  qed
qed

lemma autores_loop_count':
  "autores_loop w as ps = (Inr ps', w1) \<Longrightarrow>
     length ps' = length ps + resolved_in w as \<and> snd (autores_loop w as []) = w1"
proof -
  assume a: "autores_loop w as ps = (Inr ps', w1)"
  obtain r0 w0 where t: "autores_loop w as [] = (r0, w0)" by (cases "autores_loop w as []")
  show ?thesis
  proof (cases r0)
    case (Inl e)
    then show ?thesis using a t autores_loop_acc [of w as ps] by simp
  next
    case (Inr qs)
    then have "ps' = ps @ qs" "w1 = w0" using a t autores_loop_acc [of w as ps] by simp_all
    moreover have "length qs = resolved_in w as" using t Inr autores_loop_count by simp
    ultimately show ?thesis using t by simp
  qed
qed

lemma ids_loop_count:
  "ids_loop w i ids ps = (Inr ps', w1) \<Longrightarrow> length ps' = length ps + resolved_refs w i ids"
proof (induction ids arbitrary: w i ps)
  case Nil
  then show ?case by simp
next
  case (Cons pid ids)
  show ?case
  proof (cases "if i mod 25 = 0 then time_sleep w 400 else Inr w")
    case (Inl e)
    then show ?thesis using Cons.prems by simp
  next
    case p: (Inr w0)
    obtain r1 wa where a: "autores_por_proposicao w0 pid = (r1, wa)"
      by (cases "autores_por_proposicao w0 pid")
    show ?thesis
    proof (cases r1)
      case (Inl e)
      then show ?thesis using Cons.prems p a by simp
    next
      case r1: (Inr autores)
      show ?thesis
      proof (cases "py_iter autores")
        case (Inl e)
        then show ?thesis using Cons.prems p a r1 by simp
      next
        case it: (Inr as)
        obtain r2 wb where l: "autores_loop wa as ps = (r2, wb)"
          by (cases "autores_loop wa as ps")
        show ?thesis
        proof (cases r2)
          case (Inl e)
          then show ?thesis using Cons.prems p a r1 it l by simp
        next
          case r2: (Inr ps1)
          have n: "ids_loop wb (Suc i) ids ps1 = (Inr ps', w1)"
            using Cons.prems p a r1 it l r2 by simp
          have c: "length ps1 = length ps + resolved_in wa as" "snd (autores_loop wa as []) = wb"
            using autores_loop_count' [of wa as ps ps1 wb] l r2 by simp_all
          have "length ps' = length ps1 + resolved_refs wb (Suc i) ids"
            using Cons.IH [OF n] .
          then show ?thesis using c p a r1 it by simp
        qed
      qed
    qed
  qed
qed

lemma autores_loop_nonempty:
  "autores_loop w as ps = (Inr ps', w1) \<Longrightarrow> [] \<notin> set ps \<Longrightarrow> [] \<notin> set ps'"
proof (induction as arbitrary: w ps)
  case Nil
  then show ?case by simp
next
  case (Cons a as)
  obtain r wa where s: "autor_step w a ps = (r, wa)" by (cases "autor_step w a ps")
  show ?case
  proof (cases r)
    case (Inl e)
    then show ?thesis using s Cons.prems by simp
  next
    case (Inr ps1)
    have "ps1 = ps @ contribution w a" using s Inr autor_step_contribution by simp
    moreover have "[] \<notin> set (contribution w a)"
      by (auto simp: contribution_def party_of_reference_def
          split: option.splits sum.splits bool.splits if_splits)
    ultimately have "[] \<notin> set ps1" using Cons.prems(2) by simp
    moreover have "autores_loop wa as ps1 = (Inr ps', w1)" using s Inr Cons.prems(1) by simp
    ultimately show ?thesis using Cons.IH by blast
  qed
qed

lemma ids_loop_nonempty:
  "ids_loop w i ids ps = (Inr ps', w1) \<Longrightarrow> [] \<notin> set ps \<Longrightarrow> [] \<notin> set ps'"
proof (induction ids arbitrary: w i ps)
  case Nil
  then show ?case by simp
next
  case (Cons pid ids)
  show ?case
  proof (cases "if i mod 25 = 0 then time_sleep w 400 else Inr w")
    case (Inl e)
    then show ?thesis using Cons.prems by simp
  next
    case p: (Inr w0)
    obtain r1 wa where a: "autores_por_proposicao w0 pid = (r1, wa)"
      by (cases "autores_por_proposicao w0 pid")
    show ?thesis
    proof (cases r1)
      case (Inl e)
      then show ?thesis using Cons.prems p a by simp
    next
      case r1: (Inr autores)
      show ?thesis
      proof (cases "py_iter autores")
        case (Inl e)
        then show ?thesis using Cons.prems p a r1 by simp
      next
        case it: (Inr as)
        obtain r2 wb where l: "autores_loop wa as ps = (r2, wb)"
          by (cases "autores_loop wa as ps")
        show ?thesis
        proof (cases r2)
          case (Inl e)
          then show ?thesis using Cons.prems p a r1 it l by simp
        next
          case r2: (Inr ps1)
          have n: "ids_loop wb (Suc i) ids ps1 = (Inr ps', w1)"
            using Cons.prems p a r1 it l r2 by simp
          have "[] \<notin> set ps1" using autores_loop_nonempty l r2 Cons.prems(2) by blast
          then show ?thesis using Cons.IH [OF n] by simp
        qed
      qed
    qed
  qed
qed

text \<open>
  Claim C8. On a call that returns, every count is positive, every party code is
  non-empty and appears once, the rows are sorted by count, descending, and the counts
  add up to the number of author references, over the bills processed, that are
  parliamentary and for which a non-empty party code was resolved: a reference adds
  exactly its own code to the tally, so a legislator counts once for each bill.
\<close>

theorem contagem_por_partido_counts:
  assumes "contagem_por_partido w df_pl usar_todos = (Inr out, w1)" and "ids_of df_pl = Inr ids"
  shows "sum_list (map snd out) = resolved_refs w 1 (if usar_todos then ids else take 800 ids) \<and>
         (\<forall>row \<in> set out. 0 < snd row \<and> fst row \<noteq> []) \<and>
         distinct (map fst out) \<and>
         sorted (rev (map snd out)) \<and>
         (\<forall>w a ps ps' w'. autor_step w a ps = (Inr ps', w') \<longrightarrow>
            ps' = ps @ (case party_of_reference w a of None \<Rightarrow> [] | Some p \<Rightarrow> [p]))"
proof -
  let ?sample = "if usar_todos then ids else take 800 ids"
  have "\<exists>ps. ids_loop w 1 ?sample [] = (Inr ps, w1) \<and> out = value_counts ps"
    using assms
    by (cases usar_todos)
      (auto simp: contagem_por_partido_def Let_def split: prod.splits sum.splits)
  then obtain ps where l: "ids_loop w 1 ?sample [] = (Inr ps, w1)" and o: "out = value_counts ps"
    by blast
  have n: "length ps = resolved_refs w 1 ?sample"
    using ids_loop_count [OF l] by simp
  have e: "[] \<notin> set ps"
    using ids_loop_nonempty [OF l] by simp
  have s: "sum_list (map snd out) = resolved_refs w 1 ?sample"
    using o n value_counts_sum by simp
  have r: "\<forall>row \<in> set out. 0 < snd row \<and> fst row \<noteq> []"
  proof
    fix row assume "row \<in> set out"
    then obtain p where p: "p \<in> set ps" "row = (p, count_list ps p)"
      using o value_counts_set by auto
    then have "count_list ps p \<noteq> 0" by (simp add: count_list_0_iff)
    then show "0 < snd row \<and> fst row \<noteq> []"
      using p e by auto
  qed
  have st: "\<forall>w a ps ps' w'. autor_step w a ps = (Inr ps', w') \<longrightarrow>
            ps' = ps @ (case party_of_reference w a of None \<Rightarrow> [] | Some p \<Rightarrow> [p])"
    using autor_step_contribution by (simp add: contribution_def)
  show ?thesis
    using s r st o value_counts_distinct value_counts_sorted by blast
qed

text \<open>Witness for C8: two bills by the same legislator give a count of two.\<close>

theorem contagem_por_partido_counts_witness:
  "contagem_por_partido (fresh camara_dupla) (frame_of_ids [101, 102]) True =
     (Inr [(''PT'', 2)], snd (contagem_por_partido (fresh camara_dupla) (frame_of_ids [101, 102]) True)) \<and>
   ids_of (frame_of_ids [101, 102]) = Inr [101, 102] \<and>
   sum_list (map snd [(''PT'', 2 :: nat)]) = 2 \<and>
   resolved_refs (fresh camara_dupla) 1 [101, 102] = 2"
proof -
  have f: "fst (contagem_por_partido (fresh camara_dupla) (frame_of_ids [101, 102]) True) =
      Inr [(''PT'', 2)]"
    by (simp add: contagem_eval camara_dupla_def)
  have c: "contagem_por_partido (fresh camara_dupla) (frame_of_ids [101, 102]) True =
     (Inr [(''PT'', 2)], snd (contagem_por_partido (fresh camara_dupla) (frame_of_ids [101, 102]) True))"
    using f by (simp add: prod_eq_iff)
  have i: "ids_of (frame_of_ids [101, 102]) = Inr [101, 102]"
    by (rule ids_of_frame)
  show ?thesis
    using contagem_por_partido_counts [OF c i] c i by simp
qed

subsection \<open>Which author references are tallied\<close>

text \<open>
  Claim C1. A reference is parliamentary exactly when its \<^verbatim>\<open>tipoAutor\<close>, in lower case,
  starts with \<^verbatim>\<open>parlamentar\<close>; a reference that is not adds nothing and causes no lookup.
  The legislator identifier is \<^verbatim>\<open>idDeputado\<close> when that is set, and the nested
  \<^verbatim>\<open>autor.id\<close> otherwise; the party looked up for it is appended when it is not empty.
  For bills 101 and 102 of the scenario the result is exactly one row, \<^verbatim>\<open>PT\<close> with
  count 1.
\<close>

theorem contagem_por_partido_parliamentary_only:
  "(missing kvs ''tipoAutor'' \<longrightarrow> parlamentar (JObj kvs) = Inr False) \<and>
   (map_of kvs ''tipoAutor'' = Some (JStr t) \<longrightarrow>
      parlamentar (JObj kvs) = Inr (startswith (str_lower t) ''parlamentar'')) \<and>
   (parlamentar a = Inr False \<longrightarrow> autor_step w a ps = (Inr ps, w)) \<and>
   (map_of kvs ''idDeputado'' = Some v \<and> truthy v \<longrightarrow> idep_of (JObj kvs) = Inr v) \<and>
   (missing kvs ''idDeputado'' \<and> map_of kvs ''autor'' = Some (JObj au) \<longrightarrow>
      idep_of (JObj kvs) = Inr (case map_of au ''id'' of None \<Rightarrow> JNull | Some i \<Rightarrow> i)) \<and>
   (parlamentar a = Inr True \<and> idep_of a = Inr idep \<and> truthy idep \<and> py_int_of idep = Inr n \<longrightarrow>
      autor_step w a ps =
        (case partido_do_deputado w n of
           (Inl e, w1) \<Rightarrow> (Inl e, w1)
         | (Inr p, w1) \<Rightarrow> (Inr (if p \<noteq> [] then ps @ [p] else ps), w1))) \<and>
   fst (contagem_por_partido (fresh camara) (frame_of_ids [101, 102]) False) = Inr [(''PT'', 1)]"
proof -
  have c1: "missing kvs ''tipoAutor'' \<longrightarrow> parlamentar (JObj kvs) = Inr False"
    by (auto simp: parlamentar_def bindE_def py_get_def py_or_def py_lower_def str_lower_def
        startswith_def missing_def split: option.splits)
  have c2: "map_of kvs ''tipoAutor'' = Some (JStr t) \<longrightarrow>
      parlamentar (JObj kvs) = Inr (startswith (str_lower t) ''parlamentar'')"
    by (auto simp: parlamentar_def bindE_def py_get_def py_or_def py_lower_def str_lower_def
        startswith_def)
  have c3: "parlamentar a = Inr False \<longrightarrow> autor_step w a ps = (Inr ps, w)"
    by (simp add: autor_step_def)
  have c4: "map_of kvs ''idDeputado'' = Some v \<and> truthy v \<longrightarrow> idep_of (JObj kvs) = Inr v"
    by (simp add: idep_of_def bindE_def py_get_def)
  have c5: "missing kvs ''idDeputado'' \<and> map_of kvs ''autor'' = Some (JObj au) \<longrightarrow>
      idep_of (JObj kvs) = Inr (case map_of au ''id'' of None \<Rightarrow> JNull | Some i \<Rightarrow> i)"
    by (auto simp: idep_of_def bindE_def py_get_def py_or_def missing_def split: option.splits)
  have c6: "parlamentar a = Inr True \<and> idep_of a = Inr idep \<and> truthy idep \<and> py_int_of idep = Inr n \<longrightarrow>
      autor_step w a ps =
        (case partido_do_deputado w n of
           (Inl e, w1) \<Rightarrow> (Inl e, w1)
         | (Inr p, w1) \<Rightarrow> (Inr (if p \<noteq> [] then ps @ [p] else ps), w1))"
    by (auto simp: autor_step_def split: prod.splits sum.splits)
  have c7: "fst (contagem_por_partido (fresh camara) (frame_of_ids [101, 102]) False) = Inr [(''PT'', 1)]"
    by (simp add: contagem_eval camara_def)
  show ?thesis using c1 c2 c3 c4 c5 c6 c7 by blast
qed

text \<open>Witness for C1: the two author references of the scenario, and two further shapes.\<close>

theorem contagem_por_partido_parliamentary_only_witness:
  "parlamentar (JObj autor_101) = Inr True \<and>
   idep_of (JObj autor_101) = Inr (JInt 55) \<and>
   fst (autor_step (fresh camara) (JObj autor_101) []) = Inr [''PT''] \<and>
   parlamentar (JObj autor_102) = Inr False \<and>
   autor_step (fresh camara) (JObj autor_102) [''PT''] = (Inr [''PT''], fresh camara) \<and>
   parlamentar (JObj [(''nome'', JStr ''Sem tipo'')]) = Inr False \<and>
   idep_of autor_aninhado = Inr (JInt 55)"
proof -
  have t1: "map_of autor_101 ''tipoAutor'' = Some (JStr ''Parlamentar'')"
    by (simp add: autor_101_def)
  have t2: "map_of autor_102 ''tipoAutor'' = Some (JStr ''Orgao do Poder Executivo'')"
    by (simp add: autor_102_def)
  have i1: "map_of autor_101 ''idDeputado'' = Some (JInt 55) \<and> truthy (JInt 55)"
    by (simp add: autor_101_def)
  have m: "missing [(''nome'', JStr ''Sem tipo'')] ''tipoAutor''"
    by (simp add: missing_def)
  let ?k = "[(''tipoAutor'', JStr ''PARLAMENTAR''), (''idDeputado'', JNull),
           (''autor'', JObj [(''id'', JInt 55)])]"
  have n: "missing ?k ''idDeputado'' \<and> map_of ?k ''autor'' = Some (JObj [(''id'', JInt 55)])"
    by (simp add: missing_def)
  have l: "startswith (str_lower ''Parlamentar'') ''parlamentar''"
    "\<not> startswith (str_lower ''Orgao do Poder Executivo'') ''parlamentar''"
    by (simp_all add: startswith_def str_lower_def lower_char_def ascii_upper_def ascii_lower_def)
  have p: "partido_do_deputado (fresh camara) 55 =
      (Inr ''PT'', (fresh camara)\<lparr>trace := [Request (GetDeputado 55)],
          cache_partido := [55 \<mapsto> ''PT'']\<rparr>)"
    by (simp add: partido_eval fresh_def camara_def deputado_pt_def reply_def safe_get_eval json_eval)
  note T = contagem_por_partido_parliamentary_only
  show ?thesis
    using T [of autor_101 "''Parlamentar''" "JObj autor_101" "fresh camara" "[]" "JInt 55" _ "JInt 55" 55]
      T [of autor_102 "''Orgao do Poder Executivo''" "JObj autor_102" "fresh camara" "[''PT'']"]
      T [of "[(''nome'', JStr ''Sem tipo'')]"]
      T [of ?k _ _ _ _ _ "[(''id'', JInt 55)]"]
      t1 t2 i1 m n l p
    by (simp add: py_int_of_def autor_aninhado_def)
qed

section \<open>The collector\<close>

subsection \<open>The derived year and year-month columns\<close>

lemma normaliza_datas_no_column:
  "\<not> has_column todos ''dataApresentacao'' \<Longrightarrow>
     ano_mes (normaliza_datas parse todos) = None \<and> ano (normaliza_datas parse todos) = None"
  by (simp add: normaliza_datas_def)




subsection \<open>Paging through one year\<close>










text \<open>
  A run over 2023 and 2024 against that listing: the fetch for 2024 fails, and the three
  bills of 2023 are kept.
\<close>

lemma buscar_retains:
  "map_option fst (buscar_pls_periodo parse_exemplo (Suc (Suc (Suc 0))) (fresh tres_paginas) 2023 2024) =
     Some (Inr \<lparr>registros = [JObj [(''id'', JInt 1), (''siglaTipo'', JStr ''PL'')],
                JObj [(''id'', JInt 2), (''siglaTipo'', JStr ''PL'')],
                JObj [(''id'', JInt 3), (''siglaTipo'', JStr ''PL'')]],
               dataApresentacao = None, ano_mes = None, ano = None\<rparr>)"
  by (simp add: buscar_pls_periodo_def upto.simps fresh_def tres_paginas_def reply_def safe_get_eval
      page_eval normaliza_datas_def has_column_def campo_def)

lemma buscar_retains_trace:
  "map_option (trace \<circ> snd) (buscar_pls_periodo parse_exemplo (Suc (Suc (Suc 0))) (fresh tres_paginas) 2023 2024) =
     Some [Request (GetProposicoes 2023 1), Sleep 150, Request (GetProposicoes 2023 2), Sleep 150,
           Request (GetProposicoes 2023 3), Request (GetProposicoes 2024 1),
           Warning (WarnStatus 503 (GetProposicoes 2024 1))]"
  by (simp add: buscar_pls_periodo_def upto.simps fresh_def tres_paginas_def reply_def safe_get_eval
      page_eval normaliza_datas_def has_column_def campo_def)

end
